theory Spec2Isabelle
  imports Complex_Main "HOL-Library.Word"
begin

unbundle bit_operations_syntax

section \<open>The runtime, as the plugin sees it\<close>

text \<open>
  The plugin is one TypeScript module, \<^verbatim>\<open>src/plugin.ts\<close>. It calls the host runtime for
  everything it does to the outside: \<^verbatim>\<open>realpathSync\<close>, \<^verbatim>\<open>fetch\<close>, \<^verbatim>\<open>which\<close>, \<^verbatim>\<open>spawn\<close>
  and \<^verbatim>\<open>setTimeout\<close>. Those calls are parameters of the model (the record \<open>runtime\<close>), and
  every call that acts on the outside is written to a trace of events, in program order.

  Strings are \<^typ>\<open>string\<close>: the UTF-8 bytes of the JavaScript string. An optional argument
  of a tool is an \<^typ>\<open>'a option\<close>, \<open>None\<close> for \<^verbatim>\<open>undefined\<close>.
\<close>

type_synonym byte = "8 word"

text \<open>
  A JavaScript number: a finite value (every double is a rational; the two zeros are the
  one \<open>Finite 0\<close>), not-a-number, or one of the two infinities.
\<close>

datatype number = Finite rat | NaN | PosInfinity | NegInfinity

text \<open>
  The one exception the plugin does not catch: the error that \<^verbatim>\<open>spawn\<close> throws when it
  cannot start the process (the executable or the working directory is missing).
\<close>

datatype error = SpawnFailed

datatype stdio = Pipe | Ignore

record spawn_options =
  opt_cwd :: "string option"
  opt_stdin :: "stdio option"
  opt_stdout :: "stdio option"
  opt_stderr :: "stdio option"

text \<open>What a child process leaves behind once it has exited.\<close>

record subprocess =
  stdout_text :: string
  exited :: int
  stderr_text :: string

text \<open>
  The outcome of one \<^verbatim>\<open>fetch\<close>: a response with its status code, a rejection because of
  a network error, or a rejection because the abort controller fired (the timeout).
\<close>

datatype fetch_result = Response nat | NetworkError | Aborted

datatype event =
    Fetch string nat
  | Which string
  | Spawn "string list" spawn_options
  | Unref
  | Sleep nat

text \<open>
  \<open>fetch rt k url\<close> is the outcome of the \<open>k\<close>-th request the plugin makes (counted from 0),
  so the server may answer differently as time passes. \<open>realpathSync rt p\<close> is \<open>None\<close>
  when the call throws, and \<open>which rt name\<close> is \<open>None\<close> for \<^verbatim>\<open>null\<close>. \<open>spawned rt cmd opts\<close>
  is \<open>None\<close> when the call of \<^verbatim>\<open>spawn\<close> with that command line and those options throws,
  and otherwise what the child it starts prints and returns. \<open>Number_toString rt q\<close> is the
  text the engine prints for a finite number that is not a safe integer (a fraction, or
  an integer of magnitude \<open>2 ^ 53\<close> or more).
\<close>

record runtime =
  realpathSync :: "string \<Rightarrow> string option"
  fetch :: "nat \<Rightarrow> string \<Rightarrow> fetch_result"
  which :: "string \<Rightarrow> string option"
  spawned :: "string list \<Rightarrow> spawn_options \<Rightarrow> subprocess option"
  Number_toString :: "rat \<Rightarrow> string"

record world =
  trace :: "event list"
  fetches :: nat

definition emit :: "event \<Rightarrow> world \<Rightarrow> world" where
  "emit e w = w\<lparr>trace := trace w @ [e]\<rparr>"

subsection \<open>Numbers to strings\<close>

text \<open>
  The decimal numeral of an integer, with a minus sign when it is negative. It is what
  the template \<^verbatim>\<open>${port}\<close> prints for a port, and what \<^verbatim>\<open>String(n)\<close> prints for a safe
  integer.
\<close>

definition digit :: "nat \<Rightarrow> char" where
  "digit d =
     (if d = 0 then CHR ''0'' else if d = 1 then CHR ''1'' else if d = 2 then CHR ''2''
      else if d = 3 then CHR ''3'' else if d = 4 then CHR ''4'' else if d = 5 then CHR ''5''
      else if d = 6 then CHR ''6'' else if d = 7 then CHR ''7'' else if d = 8 then CHR ''8''
      else CHR ''9'')"

function String_nat :: "nat \<Rightarrow> string" where
  "String_nat k = (if k < 10 then [digit k] else String_nat (k div 10) @ [digit (k mod 10)])"
  by pat_completeness auto
termination
  by (relation "measure (\<lambda>k. k)") auto

declare String_nat.simps [simp del]

definition String_number :: "int \<Rightarrow> string" where
  "String_number i = (if i < 0 then ''-'' @ String_nat (nat (- i)) else String_nat (nat i))"

text \<open>
  \<^verbatim>\<open>String(x)\<close> of a number: the decimal numeral for a safe integer (an integer of
  magnitude at most \<open>2 ^ 53 - 1\<close>), the fixed names for not-a-number and the infinities,
  and the engine's text for every other number.
\<close>

definition safe_integer :: "rat \<Rightarrow> bool" where
  "safe_integer q = (q = of_int \<lfloor>q\<rfloor> \<and> \<bar>q\<bar> \<le> 2 ^ 53 - 1)"

definition ToString :: "runtime \<Rightarrow> number \<Rightarrow> string" where
  "ToString rt x =
     (case x of
        Finite q \<Rightarrow> (if safe_integer q then String_number \<lfloor>q\<rfloor> else Number_toString rt q)
      | NaN \<Rightarrow> ''NaN''
      | PosInfinity \<Rightarrow> ''Infinity''
      | NegInfinity \<Rightarrow> ''-Infinity'')"

text \<open>The truthiness of a number: zero and not-a-number are falsy.\<close>

definition ToBoolean :: "number \<Rightarrow> bool" where
  "ToBoolean x =
     (case x of Finite q \<Rightarrow> q \<noteq> 0 | NaN \<Rightarrow> False | PosInfinity \<Rightarrow> True | NegInfinity \<Rightarrow> True)"

text \<open>Reading a decimal numeral back, to say what "base 10" means.\<close>

definition digit_value :: "char \<Rightarrow> nat" where
  "digit_value c = of_char c - 48"

definition decimal_value :: "string \<Rightarrow> nat" where
  "decimal_value s = foldl (\<lambda>acc c. 10 * acc + digit_value c) 0 s"

definition signed_decimal_value :: "string \<Rightarrow> int" where
  "signed_decimal_value s =
     (case s of
        [] \<Rightarrow> 0
      | c # ds \<Rightarrow> (if c = CHR ''-'' then - int (decimal_value ds) else int (decimal_value s)))"

section \<open>Port Deriver\<close>

text \<open>
  \<^verbatim>\<open>Buffer.from(cwd)\<close> is the UTF-8 encoding of the string; a \<^typ>\<open>string\<close> is its bytes
  already.
\<close>

definition Buffer_from :: "string \<Rightarrow> byte list" where
  "Buffer_from cwd = map of_char cwd"

text \<open>The remainder of BigInt \<^verbatim>\<open>%\<close>: it takes the sign of the dividend.\<close>

definition bigint_rem :: "int \<Rightarrow> int \<Rightarrow> int" where
  "bigint_rem a b = sgn a * (\<bar>a\<bar> mod \<bar>b\<bar>)"

text \<open>
  The loop of \<^verbatim>\<open>getPortForDir\<close> over the bytes. \<open>h\<close> is a BigInt, an unbounded integer:
  the xor and the product are exact, and the mask cuts the product to 64 bits.
\<close>

fun hash_loop :: "int \<Rightarrow> byte list \<Rightarrow> int" where
  "hash_loop h [] = h"
| "hash_loop h (byte # bytes) =
     hash_loop (((h XOR uint byte) * 0x100000001b3) AND 0xffffffffffffffff) bytes"

definition getPortForDir :: "string \<Rightarrow> int" where
  "getPortForDir cwd =
     8765 + bigint_rem (hash_loop 0xcbf29ce484222325 (Buffer_from cwd)) 1000"

text \<open>
  FNV-1a as the specification words it, on 64-bit machine words: xor the byte into the
  hash, then multiply by the prime, everything modulo \<open>2 ^ 64\<close>.
\<close>

definition fnv1a64 :: "byte list \<Rightarrow> 64 word" where
  "fnv1a64 bytes =
     foldl (\<lambda>h b. (h XOR ucast b) * 0x100000001b3) 0xcbf29ce484222325 bytes"

section \<open>Server Supervisor\<close>

text \<open>\<^verbatim>\<open>res.ok\<close> of a fetch response: the status is in the range 200 to 299.\<close>

definition Response_ok :: "nat \<Rightarrow> bool" where
  "Response_ok status = (200 \<le> status \<and> status \<le> 299)"

text \<open>
  The URL of the health endpoint. The port is an integer, the one \<open>getPortForDir\<close>
  returns, and the template prints its decimal numeral.
\<close>

definition health_url :: "int \<Rightarrow> string" where
  "health_url port = ''http://127.0.0.1:'' @ String_number port @ ''/health''"

text \<open>
  \<^verbatim>\<open>checkServerHealth(port, timeout = 500)\<close>: one request, with an abort timer of
  \<open>timeout\<close> milliseconds. Both ways the request can reject end in the \<^verbatim>\<open>catch\<close>.
\<close>

definition checkServerHealth :: "runtime \<Rightarrow> int \<Rightarrow> nat \<Rightarrow> world \<Rightarrow> bool \<times> world" where
  "checkServerHealth rt port timeout w =
     (let url = health_url port;
          w' = (emit (Fetch url timeout) w)\<lparr>fetches := Suc (fetches w)\<rparr>
      in case fetch rt (fetches w) url of
           Response status \<Rightarrow> (Response_ok status, w')
         | NetworkError \<Rightarrow> (False, w')
         | Aborted \<Rightarrow> (False, w'))"

definition sleep :: "nat \<Rightarrow> world \<Rightarrow> world" where
  "sleep ms w = emit (Sleep ms) w"

text \<open>The \<^verbatim>\<open>for (let i = 0; i < 30; i++)\<close> loop of the activation, from \<open>i\<close> on.\<close>

function poll :: "runtime \<Rightarrow> int \<Rightarrow> nat \<Rightarrow> world \<Rightarrow> world" where
  "poll rt port i w =
     (if i < 30 then
        (let w1 = sleep 100 w;
             (healthy, w2) = checkServerHealth rt port 500 w1
         in if healthy then w2 else poll rt port (i + 1) w2)
      else w)"
  by pat_completeness auto
termination
  by (relation "measure (\<lambda>(rt, port, i, w). 30 - i)") auto

declare poll.simps [simp del]

text \<open>JavaScript truthiness of the optional values the plugin tests.\<close>

definition truthy_string :: "string option \<Rightarrow> bool" where
  "truthy_string v = (case v of None \<Rightarrow> False | Some s \<Rightarrow> s \<noteq> [])"

definition truthy_boolean :: "bool option \<Rightarrow> bool" where
  "truthy_boolean v = (case v of None \<Rightarrow> False | Some b \<Rightarrow> b)"

definition truthy_number :: "number option \<Rightarrow> bool" where
  "truthy_number v = (case v of None \<Rightarrow> False | Some x \<Rightarrow> ToBoolean x)"

definition serve_options :: "string \<Rightarrow> spawn_options" where
  "serve_options realDir =
     \<lparr>opt_cwd = Some realDir, opt_stdin = Some Ignore, opt_stdout = Some Ignore,
      opt_stderr = Some Ignore\<rparr>"

text \<open>
  The supervision part of \<^verbatim>\<open>SemaPlugin\<close>, from the first health check to the end of the
  polling loop, started in world \<open>w\<close>. The event \<open>Spawn\<close> is the call of \<^verbatim>\<open>spawn\<close>; when the
  call throws, nothing catches it, and the supervision ends there with the error.
\<close>

definition supervise :: "runtime \<Rightarrow> string \<Rightarrow> int \<Rightarrow> world \<Rightarrow> error option \<times> world" where
  "supervise rt realDir port w =
     (let (healthy, w1) = checkServerHealth rt port 500 w
      in if \<not> healthy then
           (let w2 = emit (Which ''sema'') w1;
                semaPath = which rt ''sema''
            in if truthy_string semaPath then
                 (let w3 = emit (Spawn [''sema'', ''serve''] (serve_options realDir)) w2
                  in case spawned rt [''sema'', ''serve''] (serve_options realDir) of
                       None \<Rightarrow> (Some SpawnFailed, w3)
                     | Some child \<Rightarrow>
                         (let w4 = emit Unref w3
                          in (None, poll rt port 0 w4)))
               else (None, w2))
         else (None, w1))"

section \<open>Command Forwarder\<close>

record sema_args =
  a_query :: string
  a_path :: "string option"
  a_n :: "number option"
  a_lang :: "string option"
  a_glob :: "string option"
  a_exclude :: "string option"
  a_keyword :: "bool option"

record find_args =
  f_symbol :: string
  f_kind :: "string option"
  f_exported :: "bool option"
  f_prefix :: "bool option"

record refs_args =
  r_symbol :: string

record query_args =
  q_kind :: "string option"
  q_exported :: "bool option"
  q_min_complexity :: "number option"
  q_max_complexity :: "number option"
  q_role :: "string option"
  q_parent :: "string option"
  q_language :: "string option"

definition push :: "string list \<Rightarrow> string list \<Rightarrow> string list" where
  "push cmd items = cmd @ items"

text \<open>
  The command line each \<^verbatim>\<open>execute\<close> builds, statement by statement. A value is read
  with \<open>the\<close> only under the test that it is there.
\<close>

definition sema_cmd :: "runtime \<Rightarrow> sema_args \<Rightarrow> string list" where
  "sema_cmd rt args =
     (let cmd = [''sema''];
          cmd = (if truthy_boolean (a_keyword args) then push cmd [''-k''] else cmd);
          cmd = push cmd [a_query args];
          cmd = (if truthy_string (a_path args) then push cmd [the (a_path args)] else cmd);
          cmd = (if truthy_number (a_n args)
                 then push cmd [''-n'', ToString rt (the (a_n args))] else cmd);
          cmd = (if truthy_string (a_lang args)
                 then push cmd [''-l'', the (a_lang args)] else cmd);
          cmd = (if truthy_string (a_glob args)
                 then push cmd [''-g'', the (a_glob args)] else cmd);
          cmd = (if truthy_string (a_exclude args)
                 then push cmd [''--exclude'', the (a_exclude args)] else cmd)
      in cmd)"

definition sema_find_cmd :: "find_args \<Rightarrow> string list" where
  "sema_find_cmd args =
     (let cmd = [''sema'', ''find'', f_symbol args];
          cmd = (if truthy_string (f_kind args)
                 then push cmd [''--kind'', the (f_kind args)] else cmd);
          cmd = (if truthy_boolean (f_exported args) then push cmd [''--exported''] else cmd);
          cmd = (if truthy_boolean (f_prefix args) then push cmd [''--prefix''] else cmd)
      in cmd)"

definition sema_refs_cmd :: "refs_args \<Rightarrow> string list" where
  "sema_refs_cmd args = [''sema'', ''refs'', r_symbol args]"

definition sema_query_cmd :: "runtime \<Rightarrow> query_args \<Rightarrow> string list" where
  "sema_query_cmd rt args =
     (let cmd = [''sema'', ''query''];
          cmd = (if truthy_string (q_kind args)
                 then push cmd [''--kind'', the (q_kind args)] else cmd);
          cmd = (if truthy_boolean (q_exported args) then push cmd [''--exported''] else cmd);
          cmd = (if q_min_complexity args \<noteq> None
                 then push cmd [''--min-complexity'', ToString rt (the (q_min_complexity args))]
                 else cmd);
          cmd = (if q_max_complexity args \<noteq> None
                 then push cmd [''--max-complexity'', ToString rt (the (q_max_complexity args))]
                 else cmd);
          cmd = (if truthy_string (q_role args)
                 then push cmd [''--role'', the (q_role args)] else cmd);
          cmd = (if truthy_string (q_parent args)
                 then push cmd [''--parent'', the (q_parent args)] else cmd);
          cmd = (if truthy_string (q_language args)
                 then push cmd [''--language'', the (q_language args)] else cmd)
      in cmd)"

text \<open>
  The second half of every \<^verbatim>\<open>execute\<close>: spawn the child with the two pipes, read its
  standard output, wait for its exit code, and read its standard error only when the
  code is not 0. The call of \<^verbatim>\<open>spawn\<close> stands in no \<^verbatim>\<open>try\<close>: when it throws, the error
  leaves \<^verbatim>\<open>execute\<close>. The result is the event of the one \<^verbatim>\<open>spawn\<close> call, and the error
  thrown or the text returned.
\<close>

definition run_tool :: "runtime \<Rightarrow> string list \<Rightarrow> string option \<Rightarrow> string \<Rightarrow> event list \<times> (error + string)" where
  "run_tool rt cmd dir fallback =
     (let opts = \<lparr>opt_cwd = dir, opt_stdin = None, opt_stdout = Some Pipe,
                  opt_stderr = Some Pipe\<rparr>
      in case spawned rt cmd opts of
           None \<Rightarrow> ([Spawn cmd opts], Inl SpawnFailed)
         | Some proc \<Rightarrow>
             (let output = stdout_text proc;
                  exitCode = exited proc
              in ([Spawn cmd opts],
                  Inr (if exitCode \<noteq> 0 then
                         (let stderr = stderr_text proc
                          in ''Error: '' @ (if stderr \<noteq> [] then stderr else fallback))
                       else output))))"

definition sema_execute :: "runtime \<Rightarrow> sema_args \<Rightarrow> event list \<times> (error + string)" where
  "sema_execute rt args = run_tool rt (sema_cmd rt args) None ''sema command failed''"

definition sema_find_execute :: "runtime \<Rightarrow> string \<Rightarrow> find_args \<Rightarrow> event list \<times> (error + string)" where
  "sema_find_execute rt realDir args =
     run_tool rt (sema_find_cmd args) (Some realDir) ''sema find command failed''"

definition sema_refs_execute :: "runtime \<Rightarrow> string \<Rightarrow> refs_args \<Rightarrow> event list \<times> (error + string)" where
  "sema_refs_execute rt realDir args =
     run_tool rt (sema_refs_cmd args) (Some realDir) ''sema refs command failed''"

definition sema_query_execute :: "runtime \<Rightarrow> string \<Rightarrow> query_args \<Rightarrow> event list \<times> (error + string)" where
  "sema_query_execute rt realDir args =
     run_tool rt (sema_query_cmd rt args) (Some realDir) ''sema query command failed''"

section \<open>Plugin activation\<close>

record hooks =
  tool_sema :: "sema_args \<Rightarrow> event list \<times> (error + string)"
  tool_sema_find :: "find_args \<Rightarrow> event list \<times> (error + string)"
  tool_sema_refs :: "refs_args \<Rightarrow> event list \<times> (error + string)"
  tool_sema_query :: "query_args \<Rightarrow> event list \<times> (error + string)"

definition resolve_dir :: "runtime \<Rightarrow> string \<Rightarrow> string" where
  "resolve_dir rt directory =
     (case realpathSync rt directory of Some realDir \<Rightarrow> realDir | None \<Rightarrow> directory)"

text \<open>The object the activation returns: the four tools, closed over \<open>realDir\<close>.\<close>

definition registered_tools :: "runtime \<Rightarrow> string \<Rightarrow> hooks" where
  "registered_tools rt realDir =
     \<lparr>tool_sema = sema_execute rt,
      tool_sema_find = sema_find_execute rt realDir,
      tool_sema_refs = sema_refs_execute rt realDir,
      tool_sema_query = sema_query_execute rt realDir\<rparr>"

text \<open>
  \<^verbatim>\<open>SemaPlugin({ directory })\<close>: the error it throws or the tools it registers, and the
  world after the supervision, started from an empty trace.
\<close>

definition SemaPlugin :: "runtime \<Rightarrow> string \<Rightarrow> (error + hooks) \<times> world" where
  "SemaPlugin rt directory =
     (let realDir = resolve_dir rt directory;
          port = getPortForDir realDir;
          (thrown, w) = supervise rt realDir port \<lparr>trace = [], fetches = 0\<rparr>
      in case thrown of
           Some e \<Rightarrow> (Inl e, w)
         | None \<Rightarrow> (Inr (registered_tools rt realDir), w))"

section \<open>The vocabulary of the statements\<close>

text \<open>
  The pieces of a token sequence. A flag is requested when its argument is \<^verbatim>\<open>true\<close>; an
  argument is supplied when the call passes a value for it, whatever the value. A number
  is a token as \<^verbatim>\<open>String\<close> prints it.
\<close>

definition requested_flag :: "string \<Rightarrow> bool option \<Rightarrow> string list" where
  "requested_flag flag v = (if v = Some True then [flag] else [])"

definition supplied_token :: "string option \<Rightarrow> string list" where
  "supplied_token v = (case v of Some s \<Rightarrow> [s] | None \<Rightarrow> [])"

definition supplied_pair :: "string \<Rightarrow> string option \<Rightarrow> string list" where
  "supplied_pair flag v = (case v of Some s \<Rightarrow> [flag, s] | None \<Rightarrow> [])"

definition supplied_number_pair :: "runtime \<Rightarrow> string \<Rightarrow> number option \<Rightarrow> string list" where
  "supplied_number_pair rt flag v =
     (case v of Some x \<Rightarrow> [flag, ToString rt x] | None \<Rightarrow> [])"

text \<open>
  The same pieces under a truthiness test: an empty string, the number 0 and not-a-number
  count as absent.
\<close>

definition nonempty_token :: "string option \<Rightarrow> string list" where
  "nonempty_token v = (case v of Some s \<Rightarrow> (if s \<noteq> [] then [s] else []) | None \<Rightarrow> [])"

definition nonempty_pair :: "string \<Rightarrow> string option \<Rightarrow> string list" where
  "nonempty_pair flag v =
     (case v of Some s \<Rightarrow> (if s \<noteq> [] then [flag, s] else []) | None \<Rightarrow> [])"

definition truthy_number_pair :: "runtime \<Rightarrow> string \<Rightarrow> number option \<Rightarrow> string list" where
  "truthy_number_pair rt flag v =
     (case v of
        Some x \<Rightarrow> (if ToBoolean x then [flag, ToString rt x] else [])
      | None \<Rightarrow> [])"

text \<open>
  The argument shaping rules of the search, find-symbol and structural-query operations,
  as the specification words them: every optional token or pair is there exactly when its
  argument was supplied, and a bare flag exactly when it was requested.
\<close>

definition spec_search_tokens :: "runtime \<Rightarrow> sema_args \<Rightarrow> string list" where
  "spec_search_tokens rt args =
     [''sema''] @ requested_flag ''-k'' (a_keyword args) @ [a_query args]
     @ supplied_token (a_path args)
     @ supplied_number_pair rt ''-n'' (a_n args)
     @ supplied_pair ''-l'' (a_lang args)
     @ supplied_pair ''-g'' (a_glob args)
     @ supplied_pair ''--exclude'' (a_exclude args)"

definition spec_find_tokens :: "find_args \<Rightarrow> string list" where
  "spec_find_tokens args =
     [''sema'', ''find'', f_symbol args]
     @ supplied_pair ''--kind'' (f_kind args)
     @ requested_flag ''--exported'' (f_exported args)
     @ requested_flag ''--prefix'' (f_prefix args)"

definition spec_query_tokens :: "runtime \<Rightarrow> query_args \<Rightarrow> string list" where
  "spec_query_tokens rt args =
     [''sema'', ''query'']
     @ supplied_pair ''--kind'' (q_kind args)
     @ requested_flag ''--exported'' (q_exported args)
     @ supplied_number_pair rt ''--min-complexity'' (q_min_complexity args)
     @ supplied_number_pair rt ''--max-complexity'' (q_max_complexity args)
     @ supplied_pair ''--role'' (q_role args)
     @ supplied_pair ''--parent'' (q_parent args)
     @ supplied_pair ''--language'' (q_language args)"

text \<open>
  The result contract for a child that has exited: the output on exit code 0, otherwise
  \<open>Error:\<close> and a space in front of the standard error, or in front of the fallback
  phrase when the standard error is empty.
\<close>

definition result_contract :: "subprocess \<Rightarrow> string \<Rightarrow> string" where
  "result_contract p phrase =
     (if exited p = 0 then stdout_text p
      else if stderr_text p \<noteq> [] then ''Error: '' @ stderr_text p
      else ''Error: '' @ phrase)"

text \<open>
  What leaves a tool call: the error of the \<^verbatim>\<open>spawn\<close> call when it threw, and the text of
  the result contract when the child was started.
\<close>

definition tool_outcome :: "subprocess option \<Rightarrow> string \<Rightarrow> error + string" where
  "tool_outcome child phrase =
     (case child of None \<Rightarrow> Inl SpawnFailed | Some p \<Rightarrow> Inr (result_contract p phrase))"

definition pipe_options :: "string option \<Rightarrow> spawn_options" where
  "pipe_options dir =
     \<lparr>opt_cwd = dir, opt_stdin = None, opt_stdout = Some Pipe, opt_stderr = Some Pipe\<rparr>"

text \<open>The health check's answer to one outcome of the request.\<close>

definition healthy_result :: "fetch_result \<Rightarrow> bool" where
  "healthy_result r = (case r of Response status \<Rightarrow> Response_ok status | _ \<Rightarrow> False)"

definition healthy_at :: "runtime \<Rightarrow> int \<Rightarrow> nat \<Rightarrow> bool" where
  "healthy_at rt port k = healthy_result (fetch rt k (health_url port))"

text \<open>
  One round of the polling loop, and what comes in front of it, as events: a launch that
  started the server, and a launch whose \<^verbatim>\<open>spawn\<close> call threw.
\<close>

definition poll_round :: "int \<Rightarrow> event list" where
  "poll_round port = [Sleep 100, Fetch (health_url port) 500]"

definition launch_events :: "string \<Rightarrow> int \<Rightarrow> event list" where
  "launch_events realDir port =
     [Fetch (health_url port) 500, Which ''sema'',
      Spawn [''sema'', ''serve''] (serve_options realDir), Unref]"

definition failed_launch_events :: "string \<Rightarrow> int \<Rightarrow> event list" where
  "failed_launch_events realDir port =
     [Fetch (health_url port) 500, Which ''sema'',
      Spawn [''sema'', ''serve''] (serve_options realDir)]"

text \<open>The port the activation derives for a project directory.\<close>

definition plugin_port :: "runtime \<Rightarrow> string \<Rightarrow> int" where
  "plugin_port rt directory = getPortForDir (resolve_dir rt directory)"

text \<open>
  The number of rounds the polling loop makes from iteration \<open>i\<close> on, when the next
  request is the \<open>k\<close>-th: it stops after the first healthy answer, and at \<open>i = 30\<close>.
\<close>

function poll_attempts :: "runtime \<Rightarrow> int \<Rightarrow> nat \<Rightarrow> nat \<Rightarrow> nat" where
  "poll_attempts rt port i k =
     (if i < 30 then
        (if healthy_at rt port k then 1 else 1 + poll_attempts rt port (i + 1) (k + 1))
      else 0)"
  by pat_completeness auto
termination
  by (relation "measure (\<lambda>(rt, port, i, k). 30 - i)") auto

declare poll_attempts.simps [simp del]

section \<open>Examples: a runtime and plain calls\<close>

text \<open>
  A runtime for the examples: the \<open>k\<close>-th health request gets \<open>answers k\<close>, the lookup of
  the binary gives \<open>semaPath\<close>, every \<^verbatim>\<open>spawn\<close> call gives \<open>child\<close> (it throws when \<open>child\<close>
  is \<open>None\<close>), and \<open>realpathSync\<close> returns the path it is given. An example that prints
  a number that is not a safe integer sets \<open>Number_toString\<close> itself.
\<close>

definition example_runtime :: "(nat \<Rightarrow> fetch_result) \<Rightarrow> string option \<Rightarrow> subprocess option \<Rightarrow> runtime" where
  "example_runtime answers semaPath child =
     \<lparr>realpathSync = Some, fetch = (\<lambda>k url. answers k), which = (\<lambda>name. semaPath),
      spawned = (\<lambda>cmd opts. child), Number_toString = (\<lambda>q. [])\<rparr>"

definition quiet_child :: subprocess where
  "quiet_child = \<lparr>stdout_text = '''', exited = 0, stderr_text = ''''\<rparr>"

definition quiet_runtime :: runtime where
  "quiet_runtime = example_runtime (\<lambda>k. NetworkError) None (Some quiet_child)"

text \<open>Calls that pass the required arguments only.\<close>

definition search_for :: "string \<Rightarrow> sema_args" where
  "search_for q =
     \<lparr>a_query = q, a_path = None, a_n = None, a_lang = None, a_glob = None,
      a_exclude = None, a_keyword = None\<rparr>"

definition find_symbol :: "string \<Rightarrow> find_args" where
  "find_symbol s = \<lparr>f_symbol = s, f_kind = None, f_exported = None, f_prefix = None\<rparr>"

definition no_filters :: query_args where
  "no_filters =
     \<lparr>q_kind = None, q_exported = None, q_min_complexity = None, q_max_complexity = None,
      q_role = None, q_parent = None, q_language = None\<rparr>"

section \<open>Port Deriver: the hash is FNV-1a and the port is in range\<close>

lemma and_mask64: "(x::int) AND 0xffffffffffffffff = x mod 2 ^ 64"
proof -
  have "(0xffffffffffffffff::int) = mask 64"
    by (simp add: mask_eq_exp_minus_1)
  then show ?thesis
    by (simp only: take_bit_eq_mask [symmetric] take_bit_eq_mod)
qed

lemma uint_ucast_byte: "uint (ucast (b::byte) :: 64 word) = uint b"
  by (simp add: uint_up_ucast is_up)

lemma hash_step:
  "((uint (w :: 64 word) XOR uint (b::byte)) * 0x100000001b3) AND 0xffffffffffffffff
     = uint ((w XOR ucast b) * 0x100000001b3)"
proof -
  have "uint ((w XOR ucast b) * 0x100000001b3)
      = (uint (w XOR ucast b) * uint (0x100000001b3 :: 64 word)) mod 2 ^ 64"
    by (simp add: uint_word_ariths)
  also have "uint (w XOR (ucast b :: 64 word)) = uint w XOR uint b"
    by (simp add: uint_xor uint_ucast_byte)
  also have "uint (0x100000001b3 :: 64 word) = 0x100000001b3"
    by simp
  finally show ?thesis
    by (simp only: and_mask64)
qed

lemma hash_loop_word:
  "hash_loop (uint (w :: 64 word)) bs
     = uint (foldl (\<lambda>h b. (h XOR ucast b) * 0x100000001b3) w bs)"
proof (induction bs arbitrary: w)
  case Nil
  show ?case by simp
next
  case (Cons a bs)
  have "hash_loop (uint w) (a # bs) = hash_loop (uint ((w XOR ucast a) * 0x100000001b3)) bs"
    by (simp only: hash_loop.simps hash_step)
  also have "\<dots> = uint (foldl (\<lambda>h b. (h XOR ucast b) * 0x100000001b3)
                        ((w XOR ucast a) * 0x100000001b3) bs)"
    by (rule Cons.IH)
  finally show ?case by simp
qed

lemma hash_loop_fnv1a64:
  "hash_loop 0xcbf29ce484222325 bs = uint (fnv1a64 bs)"
proof -
  have "(0xcbf29ce484222325 :: int) = uint (0xcbf29ce484222325 :: 64 word)"
    by simp
  then show ?thesis
    unfolding fnv1a64_def by (simp only: hash_loop_word)
qed

lemma bigint_rem_nonneg: "0 \<le> a \<Longrightarrow> bigint_rem a 1000 = a mod 1000"
  by (cases "a = 0") (simp_all add: bigint_rem_def)

text \<open>
  C1. For every path, \<open>getPortForDir\<close> returns 8765 plus the 64-bit FNV-1a hash of the
  path's bytes modulo 1000 (offset basis \<open>0xcbf29ce484222325\<close>, prime \<open>0x100000001b3\<close>,
  xor then multiply, modulo \<open>2 ^ 64\<close>), and the port lies between 8765 and 9764. The port
  is a function of the path alone, so equal paths give equal ports.
\<close>

theorem getPortForDir_fnv1a:
  "getPortForDir cwd = 8765 + uint (fnv1a64 (Buffer_from cwd)) mod 1000
   \<and> 8765 \<le> getPortForDir cwd \<and> getPortForDir cwd \<le> 9764"
proof -
  have eq: "getPortForDir cwd = 8765 + uint (fnv1a64 (Buffer_from cwd)) mod 1000"
    by (simp add: getPortForDir_def hash_loop_fnv1a64 bigint_rem_nonneg)
  have "0 \<le> uint (fnv1a64 (Buffer_from cwd)) mod 1000"
    and "uint (fnv1a64 (Buffer_from cwd)) mod 1000 < 1000"
    by simp_all
  with eq show ?thesis by linarith
qed

theorem getPortForDir_fnv1a_witness:
  "getPortForDir ''/home/user/project'' = 9564
   \<and> 8765 + uint (fnv1a64 (Buffer_from ''/home/user/project'')) mod 1000 = 9564"
  using getPortForDir_fnv1a [of "''/home/user/project''"]
  by (simp add: getPortForDir_def Buffer_from_def bigint_rem_def)

section \<open>Command Forwarder: the token sequences\<close>

lemma push_string_pair:
  "(if truthy_string v then push cmd [flag, the v] else cmd) = cmd @ nonempty_pair flag v"
  by (cases v) (simp_all add: truthy_string_def nonempty_pair_def push_def)

lemma push_string_token:
  "(if truthy_string v then push cmd [the v] else cmd) = cmd @ nonempty_token v"
  by (cases v) (simp_all add: truthy_string_def nonempty_token_def push_def)

lemma push_boolean_flag:
  "(if truthy_boolean v then push cmd [flag] else cmd) = cmd @ requested_flag flag v"
  by (cases v) (auto simp add: truthy_boolean_def requested_flag_def push_def)

lemma push_number_pair:
  "(if truthy_number v then push cmd [flag, ToString rt (the v)] else cmd)
     = cmd @ truthy_number_pair rt flag v"
  by (cases v) (simp_all add: truthy_number_def truthy_number_pair_def push_def)

lemma push_defined_pair:
  "(if v \<noteq> None then push cmd [flag, ToString rt (the v)] else cmd)
     = cmd @ supplied_number_pair rt flag v"
  by (cases v) (simp_all add: supplied_number_pair_def push_def)

lemmas push_shapes = push_string_pair push_string_token push_boolean_flag
  push_number_pair push_defined_pair

lemmas truthy_defs = truthy_string_def truthy_boolean_def truthy_number_def ToBoolean_def

lemmas piece_defs = requested_flag_def supplied_number_pair_def nonempty_token_def
  nonempty_pair_def truthy_number_pair_def

lemma String_number_10: "String_number 10 = ''10''"
  by (simp add: String_number_def String_nat.simps digit_def)

lemma String_number_0: "String_number 0 = ''0''"
  by (simp add: String_number_def String_nat.simps digit_def)

text \<open>\<^verbatim>\<open>String\<close> prints a safe integer as its decimal numeral.\<close>

lemma safe_integer_of_int: "safe_integer (of_int k) = (\<bar>k\<bar> \<le> 2 ^ 53 - 1)"
proof -
  have "(\<bar>of_int k :: rat\<bar> \<le> 2 ^ 53 - 1) = (of_int \<bar>k\<bar> \<le> (of_int (2 ^ 53 - 1) :: rat))"
    by simp
  also have "\<dots> = (\<bar>k\<bar> \<le> 2 ^ 53 - 1)"
    by (rule of_int_le_iff)
  finally show ?thesis
    by (simp add: safe_integer_def)
qed

lemma ToString_safe:
  "\<bar>k\<bar> \<le> 2 ^ 53 - 1 \<Longrightarrow> ToString rt (Finite (of_int k)) = String_number k"
  by (simp add: ToString_def safe_integer_of_int)

lemma ToString_10: "ToString rt (Finite 10) = ''10''"
  using ToString_safe [of 10 rt] by (simp add: String_number_10)

lemma ToString_0: "ToString rt (Finite 0) = ''0''"
  using ToString_safe [of 0 rt] by (simp add: String_number_0)

lemma ToString_half: "ToString rt (Finite (5 / 2)) = Number_toString rt (5 / 2)"
proof -
  have "\<lfloor>5 / 2 :: rat\<rfloor> = 2"
    by (simp add: floor_eq_iff)
  then have "\<not> safe_integer (5 / 2)"
    by (simp add: safe_integer_def)
  then show ?thesis
    by (simp add: ToString_def)
qed

text \<open>
  Base 10: the digits \<open>String_nat\<close> prints are decimal digits, and read back as a decimal
  numeral they give the number; so does the numeral of an integer with its sign.
\<close>

lemma digit_value_digit: "d < 10 \<Longrightarrow> digit_value (digit d) = d"
  by (simp add: digit_def digit_value_def)

lemma decimal_value_snoc: "decimal_value (s @ [c]) = 10 * decimal_value s + digit_value c"
  by (simp add: decimal_value_def)

lemma decimal_value_String_nat: "decimal_value (String_nat k) = k"
proof (induction k rule: String_nat.induct)
  case (1 k)
  show ?case
  proof (cases "k < 10")
    case True
    then show ?thesis
      by (subst String_nat.simps) (simp add: decimal_value_def digit_value_digit)
  next
    case False
    with "1.IH" have "decimal_value (String_nat (k div 10)) = k div 10"
      by simp
    with False show ?thesis
      by (subst String_nat.simps) (simp add: decimal_value_snoc digit_value_digit)
  qed
qed

lemma digit_not_minus: "digit d \<noteq> CHR ''-''"
  by (simp add: digit_def)

lemma String_nat_head: "\<exists>d cs. String_nat k = digit d # cs"
proof (induction k rule: String_nat.induct)
  case (1 k)
  show ?case
  proof (cases "k < 10")
    case True
    then have "String_nat k = [digit k]"
      by (subst String_nat.simps) simp
    then show ?thesis
      by blast
  next
    case False
    with "1.IH" obtain d cs where "String_nat (k div 10) = digit d # cs"
      by blast
    with False have "String_nat k = digit d # (cs @ [digit (k mod 10)])"
      by (subst String_nat.simps) simp
    then show ?thesis
      by blast
  qed
qed

lemma signed_decimal_value_String_number: "signed_decimal_value (String_number k) = k"
proof (cases "k < 0")
  case True
  then show ?thesis
    by (simp add: String_number_def signed_decimal_value_def decimal_value_String_nat)
next
  case False
  obtain d cs where head: "String_nat (nat k) = digit d # cs"
    using String_nat_head by blast
  have "signed_decimal_value (String_nat (nat k)) = int (decimal_value (String_nat (nat k)))"
    by (simp add: signed_decimal_value_def head digit_not_minus)
  with False show ?thesis
    by (simp add: String_number_def decimal_value_String_nat)
qed

text \<open>
  C3, as amended. The search operation produces the binary name, then \<open>-k\<close> exactly when
  keyword mode was requested, then the query as one token, then the path token exactly
  when a non-empty path was supplied, then the pairs \<open>-n count\<close>, \<open>-l language\<close>,
  \<open>-g glob\<close>, \<open>--exclude pattern\<close> in that order, each exactly when its argument was
  supplied and is truthy: a string that is not empty, a count that is neither 0 nor
  not-a-number. The count is the token \<^verbatim>\<open>String\<close> prints for it.
\<close>

theorem search_tokens:
  "sema_cmd rt args =
     [''sema''] @ requested_flag ''-k'' (a_keyword args) @ [a_query args]
     @ nonempty_token (a_path args)
     @ truthy_number_pair rt ''-n'' (a_n args)
     @ nonempty_pair ''-l'' (a_lang args)
     @ nonempty_pair ''-g'' (a_glob args)
     @ nonempty_pair ''--exclude'' (a_exclude args)"
  unfolding sema_cmd_def Let_def push_shapes by (simp add: push_def)

text \<open>
  The two examples of the specification, a call with every argument, and a call with a
  fractional count on an engine that prints it as \<open>2.5\<close>.
\<close>

theorem search_tokens_witness:
  "sema_cmd quiet_runtime (search_for ''foo'') = [''sema'', ''foo'']
   \<and> sema_cmd quiet_runtime
         ((search_for ''foo'')\<lparr>a_keyword := Some True, a_n := Some (Finite 10)\<rparr>)
       = [''sema'', ''-k'', ''foo'', ''-n'', ''10'']
   \<and> sema_cmd quiet_runtime ((search_for ''foo'')
         \<lparr>a_path := Some ''src'', a_n := Some (Finite 10), a_lang := Some ''zig'',
          a_glob := Some ''*.zig'', a_exclude := Some ''t/*'', a_keyword := Some False\<rparr>)
       = [''sema'', ''foo'', ''src'', ''-n'', ''10'', ''-l'', ''zig'', ''-g'', ''*.zig'',
          ''--exclude'', ''t/*'']
   \<and> sema_cmd (quiet_runtime\<lparr>Number_toString := (\<lambda>q. ''2.5'')\<rparr>)
         ((search_for ''foo'')\<lparr>a_n := Some (Finite (5 / 2))\<rparr>)
       = [''sema'', ''foo'', ''-n'', ''2.5'']"
  using
    search_tokens [of quiet_runtime "search_for ''foo''"]
    search_tokens [of quiet_runtime
      "(search_for ''foo'')\<lparr>a_keyword := Some True, a_n := Some (Finite 10)\<rparr>"]
    search_tokens [of quiet_runtime "(search_for ''foo'')
      \<lparr>a_path := Some ''src'', a_n := Some (Finite 10), a_lang := Some ''zig'',
       a_glob := Some ''*.zig'', a_exclude := Some ''t/*'', a_keyword := Some False\<rparr>"]
    search_tokens [of "quiet_runtime\<lparr>Number_toString := (\<lambda>q. ''2.5'')\<rparr>"
      "(search_for ''foo'')\<lparr>a_n := Some (Finite (5 / 2))\<rparr>"]
  by (simp add: search_for_def piece_defs ToBoolean_def ToString_10 ToString_half)

text \<open>
  C3, as stated, fails where an argument is supplied with a falsy value: an empty path
  gives no path token, and a count of 0 gives no \<open>-n\<close> pair.
\<close>

theorem search_tokens_counterexample:
  "sema_cmd quiet_runtime ((search_for ''foo'')\<lparr>a_path := Some ''''\<rparr>) = [''sema'', ''foo'']
   \<and> spec_search_tokens quiet_runtime ((search_for ''foo'')\<lparr>a_path := Some ''''\<rparr>)
       = [''sema'', ''foo'', '''']
   \<and> sema_cmd quiet_runtime ((search_for ''foo'')\<lparr>a_n := Some (Finite 0)\<rparr>)
       = [''sema'', ''foo'']
   \<and> spec_search_tokens quiet_runtime ((search_for ''foo'')\<lparr>a_n := Some (Finite 0)\<rparr>)
       = [''sema'', ''foo'', ''-n'', ''0'']"
  by (simp add: sema_cmd_def Let_def truthy_defs push_def spec_search_tokens_def
      search_for_def requested_flag_def supplied_token_def supplied_pair_def
      supplied_number_pair_def ToString_0)

text \<open>
  C7, as amended. The find-symbol operation produces \<open>sema find symbol\<close>, then the pair
  \<open>--kind kind\<close> exactly when a non-empty kind was supplied, then \<open>--exported\<close> exactly when
  the exported flag was requested, then \<open>--prefix\<close> exactly when the prefix flag was
  requested; the find-references operation produces \<open>sema refs symbol\<close> and nothing else.
\<close>

theorem find_refs_tokens:
  "sema_find_cmd args =
     [''sema'', ''find'', f_symbol args]
     @ nonempty_pair ''--kind'' (f_kind args)
     @ requested_flag ''--exported'' (f_exported args)
     @ requested_flag ''--prefix'' (f_prefix args)
   \<and> sema_refs_cmd rargs = [''sema'', ''refs'', r_symbol rargs]"
  unfolding sema_find_cmd_def sema_refs_cmd_def Let_def push_shapes by simp

theorem find_refs_tokens_witness:
  "sema_find_cmd ((find_symbol ''parseConfig'')
       \<lparr>f_kind := Some ''function'', f_exported := Some True, f_prefix := Some True\<rparr>)
     = [''sema'', ''find'', ''parseConfig'', ''--kind'', ''function'', ''--exported'', ''--prefix'']
   \<and> sema_find_cmd ((find_symbol ''parseConfig'')\<lparr>f_prefix := Some False\<rparr>)
     = [''sema'', ''find'', ''parseConfig'']
   \<and> sema_refs_cmd \<lparr>r_symbol = ''HttpClient''\<rparr> = [''sema'', ''refs'', ''HttpClient'']"
  using
    find_refs_tokens [of "(find_symbol ''parseConfig'')
      \<lparr>f_kind := Some ''function'', f_exported := Some True, f_prefix := Some True\<rparr>"
      "\<lparr>r_symbol = ''HttpClient''\<rparr>"]
    find_refs_tokens [of "(find_symbol ''parseConfig'')\<lparr>f_prefix := Some False\<rparr>"
      "\<lparr>r_symbol = ''HttpClient''\<rparr>"]
  by (simp add: find_symbol_def piece_defs)

text \<open>
  C7, as stated, fails where the kind is supplied as the empty string: the pair is left out.
\<close>

theorem find_tokens_counterexample:
  "sema_find_cmd ((find_symbol ''parseConfig'')\<lparr>f_kind := Some ''''\<rparr>)
     = [''sema'', ''find'', ''parseConfig'']
   \<and> spec_find_tokens ((find_symbol ''parseConfig'')\<lparr>f_kind := Some ''''\<rparr>)
     = [''sema'', ''find'', ''parseConfig'', ''--kind'', '''']"
  by (simp add: sema_find_cmd_def Let_def truthy_defs push_def spec_find_tokens_def
      find_symbol_def requested_flag_def supplied_pair_def)

text \<open>
  C6, as amended. The structural-query operation produces \<open>sema query\<close>, then, in this
  order: \<open>--kind v\<close> exactly when a non-empty kind was supplied; \<open>--exported\<close> exactly when
  exported is true; \<open>--min-complexity v\<close> and \<open>--max-complexity v\<close> exactly when the bound
  was supplied (0 included), the number being the token \<^verbatim>\<open>String\<close> prints for it;
  \<open>--role v\<close>, \<open>--parent v\<close> and \<open>--language v\<close> exactly when a non-empty value was supplied.
  For an integer of magnitude at most \<open>2 ^ 53 - 1\<close> that token is the base-10 numeral of the
  number: read as a decimal numeral, with its sign, it gives the number back.
\<close>

theorem query_tokens:
  "sema_query_cmd rt args =
     [''sema'', ''query'']
     @ nonempty_pair ''--kind'' (q_kind args)
     @ requested_flag ''--exported'' (q_exported args)
     @ supplied_number_pair rt ''--min-complexity'' (q_min_complexity args)
     @ supplied_number_pair rt ''--max-complexity'' (q_max_complexity args)
     @ nonempty_pair ''--role'' (q_role args)
     @ nonempty_pair ''--parent'' (q_parent args)
     @ nonempty_pair ''--language'' (q_language args)
   \<and> (\<bar>k\<bar> \<le> 2 ^ 53 - 1 \<longrightarrow>
        signed_decimal_value (ToString rt (Finite (of_int k))) = k)"
  unfolding sema_query_cmd_def Let_def push_shapes
  by (simp add: ToString_safe signed_decimal_value_String_number)

text \<open>A call with every filter, a call with none, and the numeral of a negative bound.\<close>

theorem query_tokens_witness:
  "sema_query_cmd quiet_runtime
       \<lparr>q_kind = Some ''function'', q_exported = Some True,
        q_min_complexity = Some (Finite 10), q_max_complexity = Some (Finite 0),
        q_role = Some ''call'', q_parent = Some ''Server'', q_language = Some ''zig''\<rparr>
     = [''sema'', ''query'', ''--kind'', ''function'', ''--exported'', ''--min-complexity'',
        ''10'', ''--max-complexity'', ''0'', ''--role'', ''call'', ''--parent'', ''Server'',
        ''--language'', ''zig'']
   \<and> sema_query_cmd quiet_runtime no_filters = [''sema'', ''query'']
   \<and> \<bar>- 3 :: int\<bar> \<le> 2 ^ 53 - 1
   \<and> signed_decimal_value (ToString quiet_runtime (Finite (- 3))) = - 3"
  using
    query_tokens [of quiet_runtime
      "\<lparr>q_kind = Some ''function'', q_exported = Some True,
        q_min_complexity = Some (Finite 10), q_max_complexity = Some (Finite 0),
        q_role = Some ''call'', q_parent = Some ''Server'', q_language = Some ''zig''\<rparr>"
      "- 3"]
    query_tokens [of quiet_runtime no_filters "- 3"]
  by (simp add: no_filters_def piece_defs ToString_10 ToString_0)

text \<open>
  C6, as stated, fails where a string argument is supplied as the empty string: the pair
  is left out. It fails too where a bound is \<open>2 ^ 60\<close> and the engine prints it with the
  shortest digits that name the same double, \<open>1152921504606847000\<close>: the token, read as a
  decimal numeral, is another number.
\<close>

theorem query_tokens_counterexample:
  "sema_query_cmd quiet_runtime (no_filters\<lparr>q_kind := Some ''''\<rparr>) = [''sema'', ''query'']
   \<and> spec_query_tokens quiet_runtime (no_filters\<lparr>q_kind := Some ''''\<rparr>)
     = [''sema'', ''query'', ''--kind'', '''']
   \<and> sema_query_cmd (quiet_runtime\<lparr>Number_toString := (\<lambda>q. ''1152921504606847000'')\<rparr>)
         (no_filters\<lparr>q_min_complexity := Some (Finite (2 ^ 60))\<rparr>)
     = [''sema'', ''query'', ''--min-complexity'', ''1152921504606847000'']
   \<and> signed_decimal_value ''1152921504606847000'' \<noteq> 2 ^ 60"
  by (simp add: sema_query_cmd_def Let_def truthy_defs push_def spec_query_tokens_def
      no_filters_def requested_flag_def supplied_pair_def supplied_number_pair_def
      ToString_def safe_integer_def signed_decimal_value_def decimal_value_def
      digit_value_def)

text \<open>
  C10. The search operation tests its optional arguments for truthiness: a count of 0,
  or an empty string for path, lang, glob or exclude, gives the command line of a call
  without that argument. The structural-query operation tests its two complexity bounds
  against \<^verbatim>\<open>undefined\<close>: a bound of 0 gives the pair \<open>--min-complexity 0\<close> or
  \<open>--max-complexity 0\<close>, in its place; its string arguments kind, role, parent and language
  are tested for truthiness, and an empty string gives the command line of a call without
  that argument.
\<close>

theorem presence_tests:
  "sema_cmd rt (args\<lparr>a_n := Some (Finite 0)\<rparr>) = sema_cmd rt (args\<lparr>a_n := None\<rparr>)
   \<and> sema_cmd rt (args\<lparr>a_path := Some ''''\<rparr>) = sema_cmd rt (args\<lparr>a_path := None\<rparr>)
   \<and> sema_cmd rt (args\<lparr>a_lang := Some ''''\<rparr>) = sema_cmd rt (args\<lparr>a_lang := None\<rparr>)
   \<and> sema_cmd rt (args\<lparr>a_glob := Some ''''\<rparr>) = sema_cmd rt (args\<lparr>a_glob := None\<rparr>)
   \<and> sema_cmd rt (args\<lparr>a_exclude := Some ''''\<rparr>) = sema_cmd rt (args\<lparr>a_exclude := None\<rparr>)
   \<and> sema_query_cmd rt (qargs\<lparr>q_min_complexity := Some (Finite 0)\<rparr>) =
       [''sema'', ''query'']
       @ nonempty_pair ''--kind'' (q_kind qargs)
       @ requested_flag ''--exported'' (q_exported qargs)
       @ [''--min-complexity'', ''0'']
       @ supplied_number_pair rt ''--max-complexity'' (q_max_complexity qargs)
       @ nonempty_pair ''--role'' (q_role qargs)
       @ nonempty_pair ''--parent'' (q_parent qargs)
       @ nonempty_pair ''--language'' (q_language qargs)
   \<and> sema_query_cmd rt (qargs\<lparr>q_max_complexity := Some (Finite 0)\<rparr>) =
       [''sema'', ''query'']
       @ nonempty_pair ''--kind'' (q_kind qargs)
       @ requested_flag ''--exported'' (q_exported qargs)
       @ supplied_number_pair rt ''--min-complexity'' (q_min_complexity qargs)
       @ [''--max-complexity'', ''0'']
       @ nonempty_pair ''--role'' (q_role qargs)
       @ nonempty_pair ''--parent'' (q_parent qargs)
       @ nonempty_pair ''--language'' (q_language qargs)
   \<and> sema_query_cmd rt (qargs\<lparr>q_kind := Some ''''\<rparr>) = sema_query_cmd rt (qargs\<lparr>q_kind := None\<rparr>)
   \<and> sema_query_cmd rt (qargs\<lparr>q_role := Some ''''\<rparr>) = sema_query_cmd rt (qargs\<lparr>q_role := None\<rparr>)
   \<and> sema_query_cmd rt (qargs\<lparr>q_parent := Some ''''\<rparr>)
       = sema_query_cmd rt (qargs\<lparr>q_parent := None\<rparr>)
   \<and> sema_query_cmd rt (qargs\<lparr>q_language := Some ''''\<rparr>)
       = sema_query_cmd rt (qargs\<lparr>q_language := None\<rparr>)"
  unfolding sema_cmd_def sema_query_cmd_def Let_def push_shapes
  by (simp add: push_def nonempty_token_def nonempty_pair_def truthy_number_pair_def
      supplied_number_pair_def ToBoolean_def ToString_0)

theorem presence_tests_witness:
  "sema_cmd quiet_runtime ((search_for ''foo'')\<lparr>a_n := Some (Finite 0)\<rparr>) = [''sema'', ''foo'']
   \<and> sema_cmd quiet_runtime ((search_for ''foo'')\<lparr>a_path := Some ''''\<rparr>) = [''sema'', ''foo'']
   \<and> sema_cmd quiet_runtime ((search_for ''foo'')\<lparr>a_exclude := Some ''''\<rparr>) = [''sema'', ''foo'']
   \<and> sema_query_cmd quiet_runtime (no_filters\<lparr>q_min_complexity := Some (Finite 0)\<rparr>)
       = [''sema'', ''query'', ''--min-complexity'', ''0'']
   \<and> sema_query_cmd quiet_runtime (no_filters\<lparr>q_max_complexity := Some (Finite 0)\<rparr>)
       = [''sema'', ''query'', ''--max-complexity'', ''0'']
   \<and> sema_query_cmd quiet_runtime (no_filters\<lparr>q_role := Some ''''\<rparr>) = [''sema'', ''query'']"
  using presence_tests [of quiet_runtime "search_for ''foo''" no_filters]
  by (simp add: sema_cmd_def sema_query_cmd_def Let_def truthy_defs push_def search_for_def
      no_filters_def ToString_0)

section \<open>Command Forwarder: the result and the child process\<close>

lemma run_tool_result:
  "snd (run_tool rt cmd dir phrase) = tool_outcome (spawned rt cmd (pipe_options dir)) phrase"
  by (simp add: run_tool_def tool_outcome_def result_contract_def pipe_options_def Let_def
      split: option.splits)




text \<open>
  C2, as amended. A tool call whose \<^verbatim>\<open>spawn\<close> call starts the child returns one text: the
  captured standard output, unchanged, when the child exits with code 0; \<open>Error:\<close> and a
  space followed by the captured standard error when the code is not 0 and the standard
  error is not empty; and \<open>Error:\<close> and a space followed by the operation's fallback
  phrase when the code is not 0 and the standard error is empty. The phrases are
  \<open>sema command failed\<close>, \<open>sema find command failed\<close>, \<open>sema refs command failed\<close> and
  \<open>sema query command failed\<close>. A tool call whose \<^verbatim>\<open>spawn\<close> call throws returns no text: the
  error leaves the operation.
\<close>

theorem tool_result_contract:
  "snd (sema_execute rt args) =
     tool_outcome (spawned rt (sema_cmd rt args) (pipe_options None)) ''sema command failed''
   \<and> snd (sema_find_execute rt realDir fargs) =
     tool_outcome (spawned rt (sema_find_cmd fargs) (pipe_options (Some realDir)))
       ''sema find command failed''
   \<and> snd (sema_refs_execute rt realDir rargs) =
     tool_outcome (spawned rt (sema_refs_cmd rargs) (pipe_options (Some realDir)))
       ''sema refs command failed''
   \<and> snd (sema_query_execute rt realDir qargs) =
     tool_outcome (spawned rt (sema_query_cmd rt qargs) (pipe_options (Some realDir)))
       ''sema query command failed''"
  by (simp add: sema_execute_def sema_find_execute_def sema_refs_execute_def
      sema_query_execute_def run_tool_result)

text \<open>
  Three children: one prints \<open>RESULT\<close> and exits with 0; one exits with 1 and \<open>boom\<close>
  on its standard error; one exits with 1 and an empty standard error. And a \<^verbatim>\<open>spawn\<close>
  call that throws.
\<close>

theorem tool_result_contract_witness:
  "snd (sema_execute
         (example_runtime (\<lambda>k. NetworkError) None
            (Some \<lparr>stdout_text = ''RESULT'', exited = 0, stderr_text = ''''\<rparr>))
         (search_for ''foo'')) = Inr ''RESULT''
   \<and> snd (sema_find_execute
         (example_runtime (\<lambda>k. NetworkError) None
            (Some \<lparr>stdout_text = ''partial'', exited = 1, stderr_text = ''boom''\<rparr>))
         ''/p'' (find_symbol ''x'')) = Inr ''Error: boom''
   \<and> snd (sema_query_execute
         (example_runtime (\<lambda>k. NetworkError) None
            (Some \<lparr>stdout_text = ''partial'', exited = 1, stderr_text = ''''\<rparr>))
         ''/p'' no_filters) = Inr ''Error: sema query command failed''
   \<and> snd (sema_refs_execute (example_runtime (\<lambda>k. NetworkError) None None)
         ''/p'' \<lparr>r_symbol = ''x''\<rparr>) = Inl SpawnFailed"
  using
    tool_result_contract [where
      rt = "example_runtime (\<lambda>k. NetworkError) None
              (Some \<lparr>stdout_text = ''RESULT'', exited = 0, stderr_text = ''''\<rparr>)"
      and args = "search_for ''foo''"]
    tool_result_contract [where
      rt = "example_runtime (\<lambda>k. NetworkError) None
              (Some \<lparr>stdout_text = ''partial'', exited = 1, stderr_text = ''boom''\<rparr>)"
      and realDir = "''/p''" and fargs = "find_symbol ''x''"]
    tool_result_contract [where
      rt = "example_runtime (\<lambda>k. NetworkError) None
              (Some \<lparr>stdout_text = ''partial'', exited = 1, stderr_text = ''''\<rparr>)"
      and realDir = "''/p''" and qargs = no_filters]
    tool_result_contract [where
      rt = "example_runtime (\<lambda>k. NetworkError) None None"
      and realDir = "''/p''" and rargs = "\<lparr>r_symbol = ''x''\<rparr>"]
  by (simp add: tool_outcome_def result_contract_def example_runtime_def)

text \<open>
  C2, as stated, fails where the \<^verbatim>\<open>spawn\<close> call throws, as it does when there is no
  \<open>sema\<close> on the path: the search operation returns neither the output nor an error
  string, and the exception crosses the tool boundary.
\<close>

theorem tool_result_counterexample:
  "sema_execute (example_runtime (\<lambda>k. NetworkError) None None) (search_for ''foo'')
     = ([Spawn [''sema'', ''foo'']
           \<lparr>opt_cwd = None, opt_stdin = None, opt_stdout = Some Pipe,
            opt_stderr = Some Pipe\<rparr>],
        Inl SpawnFailed)"
  by (simp add: sema_execute_def run_tool_def sema_cmd_def search_for_def truthy_defs
      push_def example_runtime_def Let_def)



section \<open>Server Supervisor: health check, launch and polling\<close>

lemma checkServerHealth_fst:
  "fst (checkServerHealth rt port timeout w) = healthy_at rt port (fetches w)"
  by (simp add: checkServerHealth_def healthy_at_def healthy_result_def Let_def
      split: fetch_result.splits)

lemma checkServerHealth_trace:
  "trace (snd (checkServerHealth rt port timeout w)) = trace w @ [Fetch (health_url port) timeout]"
  by (simp add: checkServerHealth_def emit_def Let_def split: fetch_result.splits)

lemma checkServerHealth_fetches:
  "fetches (snd (checkServerHealth rt port timeout w)) = Suc (fetches w)"
  by (simp add: checkServerHealth_def emit_def Let_def split: fetch_result.splits)

lemma sleep_world: "trace (sleep ms w) = trace w @ [Sleep ms]" "fetches (sleep ms w) = fetches w"
  by (simp_all add: sleep_def emit_def)

lemma emit_world: "trace (emit e w) = trace w @ [e]" "fetches (emit e w) = fetches w"
  by (simp_all add: emit_def)

lemma poll_unfold:
  "poll rt port i w =
     (if i < 30 then
        (if healthy_at rt port (fetches w) then snd (checkServerHealth rt port 500 (sleep 100 w))
         else poll rt port (i + 1) (snd (checkServerHealth rt port 500 (sleep 100 w))))
      else w)"
proof -
  have "fst (checkServerHealth rt port 500 (sleep 100 w)) = healthy_at rt port (fetches w)"
    by (simp add: checkServerHealth_fst sleep_world)
  then show ?thesis
    by (subst poll.simps) (simp add: Let_def split_beta)
qed

lemma poll_trace:
  "trace (poll rt port i w) =
     trace w @ concat (replicate (poll_attempts rt port i (fetches w)) (poll_round port))"
proof (induction rt port i w rule: poll.induct)
  case (1 rt port i w)
  let ?w2 = "snd (checkServerHealth rt port 500 (sleep 100 w))"
  have tr: "trace ?w2 = trace w @ poll_round port"
    by (simp add: checkServerHealth_trace sleep_world poll_round_def)
  have fe: "fetches ?w2 = fetches w + 1"
    by (simp add: checkServerHealth_fetches sleep_world)
  show ?case
  proof (cases "i < 30")
    case False
    then show ?thesis
      by (subst poll_unfold, subst poll_attempts.simps) simp
  next
    case True
    show ?thesis
    proof (cases "healthy_at rt port (fetches w)")
      case True
      with \<open>i < 30\<close> show ?thesis
        by (subst poll_unfold, subst poll_attempts.simps) (simp add: tr)
    next
      case False
      have "fst (checkServerHealth rt port 500 (sleep 100 w)) = healthy_at rt port (fetches w)"
        by (simp add: checkServerHealth_fst sleep_world)
      with False have nh: "\<not> fst (checkServerHealth rt port 500 (sleep 100 w))"
        by simp
      have "trace (poll rt port (i + 1) ?w2) =
              trace ?w2 @ concat (replicate (poll_attempts rt port (i + 1) (fetches ?w2)) (poll_round port))"
        using "1.IH" [OF \<open>i < 30\<close> refl refl prod.collapse nh] .
      with False \<open>i < 30\<close> show ?thesis
        by (subst poll_unfold, subst poll_attempts.simps) (simp add: tr fe)
    qed
  qed
qed



lemma poll_attempts_le: "poll_attempts rt port i k \<le> 30 - i"
proof (induction rt port i k rule: poll_attempts.induct)
  case (1 rt port i k)
  show ?case
  proof (cases "i < 30 \<and> \<not> healthy_at rt port k")
    case True
    with "1.IH" have "poll_attempts rt port (i + 1) (k + 1) \<le> 30 - (i + 1)"
      by simp
    moreover from True
    have "poll_attempts rt port i k = 1 + poll_attempts rt port (i + 1) (k + 1)"
      by (subst poll_attempts.simps) simp
    ultimately show ?thesis
      using True by arith
  next
    case False
    then show ?thesis
      by (subst poll_attempts.simps) auto
  qed
qed

lemma supervise_trace:
  "trace (snd (supervise rt realDir port \<lparr>trace = [], fetches = 0\<rparr>)) =
     (if healthy_at rt port 0 then [Fetch (health_url port) 500]
      else if truthy_string (which rt ''sema'') then
        (case spawned rt [''sema'', ''serve''] (serve_options realDir) of
           None \<Rightarrow> failed_launch_events realDir port
         | Some child \<Rightarrow>
             launch_events realDir port
             @ concat (replicate (poll_attempts rt port 0 1) (poll_round port)))
      else [Fetch (health_url port) 500, Which ''sema''])"
proof -
  let ?w0 = "\<lparr>trace = [], fetches = 0\<rparr>"
  let ?w1 = "snd (checkServerHealth rt port 500 ?w0)"
  have h: "fst (checkServerHealth rt port 500 ?w0) = healthy_at rt port 0"
    by (simp add: checkServerHealth_fst)
  have t1: "trace ?w1 = [Fetch (health_url port) 500]"
    by (simp add: checkServerHealth_trace)
  have f1: "fetches ?w1 = 1"
    by (simp add: checkServerHealth_fetches)
  show ?thesis
    by (simp add: supervise_def split_beta Let_def h t1 f1 poll_trace emit_world
        launch_events_def failed_launch_events_def split: option.splits)
qed


lemma SemaPlugin_trace:
  "trace (snd (SemaPlugin rt directory)) =
     trace (snd (supervise rt (resolve_dir rt directory) (plugin_port rt directory)
       \<lparr>trace = [], fetches = 0\<rparr>))"
  by (simp add: SemaPlugin_def plugin_port_def Let_def split_beta split: option.splits)


text \<open>
  C8. The health check answers true exactly when the request to
  \<open>http://127.0.0.1:port/health\<close> produced a response whose status is in 200..299; a
  response with another status, a network error and the abort of the timeout all give
  false. It makes that one request, and it always returns.
\<close>

theorem checkServerHealth_contract:
  "fst (checkServerHealth rt port timeout w) =
     (\<exists>status. fetch rt (fetches w) (''http://127.0.0.1:'' @ String_number port @ ''/health'')
                  = Response status \<and> 200 \<le> status \<and> status \<le> 299)
   \<and> trace (snd (checkServerHealth rt port timeout w)) =
       trace w @ [Fetch (''http://127.0.0.1:'' @ String_number port @ ''/health'') timeout]"
  by (simp add: checkServerHealth_def health_url_def Response_ok_def emit_def Let_def
      split: fetch_result.splits)

theorem checkServerHealth_contract_witness:
  "fst (checkServerHealth (example_runtime (\<lambda>k. Response 204) None (Some quiet_child))
         8765 500 \<lparr>trace = [], fetches = 0\<rparr>)
   \<and> \<not> fst (checkServerHealth (example_runtime (\<lambda>k. Response 404) None (Some quiet_child))
         8765 500 \<lparr>trace = [], fetches = 0\<rparr>)
   \<and> \<not> fst (checkServerHealth (example_runtime (\<lambda>k. Aborted) None (Some quiet_child))
         8765 500 \<lparr>trace = [], fetches = 0\<rparr>)
   \<and> \<not> fst (checkServerHealth (example_runtime (\<lambda>k. NetworkError) None (Some quiet_child))
         8765 500 \<lparr>trace = [], fetches = 0\<rparr>)
   \<and> trace (snd (checkServerHealth (example_runtime (\<lambda>k. Response 204) None (Some quiet_child))
         8765 500 \<lparr>trace = [], fetches = 0\<rparr>))
       = [Fetch ''http://127.0.0.1:8765/health'' 500]"
  using
    checkServerHealth_contract [of
      "example_runtime (\<lambda>k. Response 204) None (Some quiet_child)" 8765 500
      "\<lparr>trace = [], fetches = 0\<rparr>"]
    checkServerHealth_contract [of
      "example_runtime (\<lambda>k. Response 404) None (Some quiet_child)" 8765 500
      "\<lparr>trace = [], fetches = 0\<rparr>"]
    checkServerHealth_contract [of
      "example_runtime (\<lambda>k. Aborted) None (Some quiet_child)" 8765 500
      "\<lparr>trace = [], fetches = 0\<rparr>"]
    checkServerHealth_contract [of
      "example_runtime (\<lambda>k. NetworkError) None (Some quiet_child)" 8765 500
      "\<lparr>trace = [], fetches = 0\<rparr>"]
  by (simp add: example_runtime_def String_number_def String_nat.simps digit_def)

text \<open>
  C5. \<open>healthy_at rt port 0\<close> is the answer of the activation's first health check
  (\<open>checkServerHealth_fst\<close>). When it is healthy, the activation makes that one request and
  nothing else: it does not look the binary up, spawns nothing and does not poll. The
  activation calls \<^verbatim>\<open>spawn\<close> exactly when the first health check was unhealthy and the
  binary was found on the path; when the binary was not found, it stops after the lookup.
\<close>

theorem healthy_no_launch:
  "(healthy_at rt (plugin_port rt directory) 0 \<longrightarrow>
      trace (snd (SemaPlugin rt directory)) = [Fetch (health_url (plugin_port rt directory)) 500])
   \<and> ((\<exists>cmd opts. Spawn cmd opts \<in> set (trace (snd (SemaPlugin rt directory)))) =
        (\<not> healthy_at rt (plugin_port rt directory) 0 \<and> truthy_string (which rt ''sema'')))
   \<and> (\<not> healthy_at rt (plugin_port rt directory) 0 \<and> \<not> truthy_string (which rt ''sema'') \<longrightarrow>
      trace (snd (SemaPlugin rt directory)) =
        [Fetch (health_url (plugin_port rt directory)) 500, Which ''sema''])"
proof -
  let ?port = "plugin_port rt directory"
  let ?dir = "resolve_dir rt directory"
  let ?tr = "trace (snd (SemaPlugin rt directory))"
  have tr: "?tr =
     (if healthy_at rt ?port 0 then [Fetch (health_url ?port) 500]
      else if truthy_string (which rt ''sema'') then
        (case spawned rt [''sema'', ''serve''] (serve_options ?dir) of
           None \<Rightarrow> failed_launch_events ?dir ?port
         | Some child \<Rightarrow>
             launch_events ?dir ?port
             @ concat (replicate (poll_attempts rt ?port 0 1) (poll_round ?port)))
      else [Fetch (health_url ?port) 500, Which ''sema''])"
    by (simp only: SemaPlugin_trace supervise_trace)
  have "(\<exists>cmd opts. Spawn cmd opts \<in> set ?tr) =
          (\<not> healthy_at rt ?port 0 \<and> truthy_string (which rt ''sema''))"
  proof (cases "\<not> healthy_at rt ?port 0 \<and> truthy_string (which rt ''sema'')")
    case True
    then have "Spawn [''sema'', ''serve''] (serve_options ?dir) \<in> set ?tr"
      by (simp add: tr launch_events_def failed_launch_events_def split: option.splits)
    with True show ?thesis by blast
  next
    case False
    then have "?tr = [Fetch (health_url ?port) 500]
             \<or> ?tr = [Fetch (health_url ?port) 500, Which ''sema'']"
      by (auto simp add: tr)
    then have "\<And>cmd opts. Spawn cmd opts \<notin> set ?tr"
      by auto
    with False show ?thesis by blast
  qed
  with tr show ?thesis by simp
qed

text \<open>
  A server that answers 200 at once, and a server that never answers while the binary is
  on the path.
\<close>

theorem healthy_no_launch_witness:
  "trace (snd (SemaPlugin
       (example_runtime (\<lambda>k. Response 200) (Some ''/usr/local/bin/sema'') (Some quiet_child))
       ''/home/user/project'')) = [Fetch ''http://127.0.0.1:9564/health'' 500]
   \<and> (\<exists>cmd opts. Spawn cmd opts \<in> set (trace (snd (SemaPlugin
       (example_runtime (\<lambda>k. NetworkError) (Some ''/usr/local/bin/sema'') (Some quiet_child))
       ''/home/user/project''))))
   \<and> trace (snd (SemaPlugin
       (example_runtime (\<lambda>k. NetworkError) None (Some quiet_child)) ''/home/user/project''))
       = [Fetch ''http://127.0.0.1:9564/health'' 500, Which ''sema'']"
proof -
  have port: "getPortForDir ''/home/user/project'' = 9564"
    by (simp add: getPortForDir_def Buffer_from_def bigint_rem_def)
  have url: "health_url 9564 = ''http://127.0.0.1:9564/health''"
    by (simp add: health_url_def String_number_def String_nat.simps digit_def)
  show ?thesis
    using
      healthy_no_launch [of
        "example_runtime (\<lambda>k. Response 200) (Some ''/usr/local/bin/sema'') (Some quiet_child)"
        "''/home/user/project''"]
      healthy_no_launch [of
        "example_runtime (\<lambda>k. NetworkError) (Some ''/usr/local/bin/sema'') (Some quiet_child)"
        "''/home/user/project''"]
      healthy_no_launch [of
        "example_runtime (\<lambda>k. NetworkError) None (Some quiet_child)"
        "''/home/user/project''"]
    by (simp add: healthy_at_def healthy_result_def Response_ok_def truthy_string_def
        plugin_port_def resolve_dir_def example_runtime_def port url)
qed




end
